theory Spec2Isabelle
  imports Main "HOL-Library.Word" "HOL-Library.AList" "HOL-Library.Sublist"
begin

section \<open>Machine integers of the engine\<close>

text \<open>
  The engine's fixed-width integers: \<open>si32\<close> is a signed and \<open>ui32\<close> an unsigned
  32-bit integer, \<open>ui8\<close> an unsigned byte. A word carries no sign of its own; where the
  C++ compares two \<open>si32\<close> values with \<open><\<close> or \<open>>=\<close> the model reads both with
  \<open>sint\<close>, and where it compares two \<open>ui32\<close> values it uses the (unsigned) order of words.
\<close>

type_synonym si32 = "32 word"
type_synonym ui32 = "32 word"
type_synonym ui8 = "8 word"

section \<open>RandomMapInfo and IObjectInfo (CObjectClassesHandler.h)\<close>

record RandomMapInfo =
  rmgValue :: ui32
  mapLimit :: ui32
  zoneLimit :: ui32
  rarity :: ui32

text \<open>The constructor \<open>RandomMapInfo()\<close>: every member is initialised to 0.\<close>

definition RandomMapInfo_ctor :: RandomMapInfo where
  "RandomMapInfo_ctor = \<lparr>rmgValue = 0, mapLimit = 0, zoneLimit = 0, rarity = 0\<rparr>"

record CArmyStructure =
  totalStrength :: ui32
  shootersStrength :: ui32
  flyersStrength :: ui32
  walkersStrength :: ui32

text \<open>The constructor \<open>CArmyStructure()\<close>.\<close>

definition CArmyStructure_ctor :: CArmyStructure where
  "CArmyStructure_ctor =
     \<lparr>totalStrength = 0, shootersStrength = 0, flyersStrength = 0, walkersStrength = 0\<rparr>"

text \<open>\<open>CArmyStructure::operator<\<close>: an unsigned comparison of the two totals.\<close>

definition CArmyStructure_less :: "CArmyStructure \<Rightarrow> CArmyStructure \<Rightarrow> bool" where
  "CArmyStructure_less this other = (totalStrength this < totalStrength other)"

text \<open>
  \<open>IObjectInfo\<close> has no data members; an object of the base class is the single value
  below, and its virtual member functions are the bodies given in the class.
\<close>

datatype IObjectInfo = IObjectInfo

definition minGuards :: "IObjectInfo \<Rightarrow> CArmyStructure" where
  "minGuards this = CArmyStructure_ctor"

definition maxGuards :: "IObjectInfo \<Rightarrow> CArmyStructure" where
  "maxGuards this = CArmyStructure_ctor"

definition givesResources :: "IObjectInfo \<Rightarrow> bool" where
  "givesResources this = False"

definition givesExperience :: "IObjectInfo \<Rightarrow> bool" where
  "givesExperience this = False"

definition givesMana :: "IObjectInfo \<Rightarrow> bool" where
  "givesMana this = False"

definition givesMovement :: "IObjectInfo \<Rightarrow> bool" where
  "givesMovement this = False"

definition givesPrimarySkills :: "IObjectInfo \<Rightarrow> bool" where
  "givesPrimarySkills this = False"

definition givesSecondarySkills :: "IObjectInfo \<Rightarrow> bool" where
  "givesSecondarySkills this = False"

definition givesArtifacts :: "IObjectInfo \<Rightarrow> bool" where
  "givesArtifacts this = False"

definition givesCreatures :: "IObjectInfo \<Rightarrow> bool" where
  "givesCreatures this = False"

definition givesSpells :: "IObjectInfo \<Rightarrow> bool" where
  "givesSpells this = False"

definition givesBonuses :: "IObjectInfo \<Rightarrow> bool" where
  "givesBonuses this = False"

section \<open>CGDefInfo (CDefObjInfoHandler.h)\<close>

text \<open>
  The legacy definition entry. The six-element \<open>ui8\<close> arrays are lists; the pointer
  \<open>handler\<close> to the sprite is an address, 0 for the null pointer.
\<close>

record CGDefInfo =
  name_def :: string
  visitMap :: "ui8 list"
  blockMap :: "ui8 list"
  coverageMap :: "ui8 list"
  shadowCoverage :: "ui8 list"
  visitDir :: ui8
  id_def :: si32
  subid :: si32
  terrainAllowed :: si32
  terrainMenu :: si32
  handler_def :: nat
  width :: si32
  height :: si32
  type_def :: si32
  printPriority :: si32

text \<open>\<open>CGDefInfo::operator<\<close>, with the signed comparisons of \<open>si32\<close>.\<close>

definition CGDefInfo_less :: "CGDefInfo \<Rightarrow> CGDefInfo \<Rightarrow> bool" where
  "CGDefInfo_less this por =
     (if id_def this \<noteq> id_def por then sint (id_def this) < sint (id_def por)
      else sint (subid this) < sint (subid por))"

section \<open>AObjectTypeHandler and ObjectContainter (CObjectClassesHandler.h)\<close>

text \<open>
  \<open>JsonNode\<close> and \<open>ObjectTemplate\<close> are declared in headers of their own; the records take
  them as the type parameters \<open>'json\<close> and \<open>'tmpl\<close>. A \<open>std::map\<close> is an association
  list: \<open>map_of\<close> looks a key up, \<open>AList.update\<close> assigns to a key and \<open>AList.delete\<close>
  erases one. A \<open>boost::optional\<close> is an \<open>option\<close>, and the shared pointer
  \<open>TObjectTypeHandler\<close> is the handler it points to.
\<close>

record ('json, 'tmpl) AObjectTypeHandler =
  rmgInfo :: RandomMapInfo
  objectName :: "string option"
  base :: 'json
  templates :: "'tmpl list"
  typeName :: string
  subTypeName :: string
  type :: si32
  subtype :: si32

record ('json, 'tmpl) ObjectContainter =
  id_oc :: si32
  "identifier" :: string
  name_oc :: string
  handlerName :: string
  base_oc :: 'json
  subObjects :: "(si32 \<times> ('json, 'tmpl) AObjectTypeHandler) list"
  subIds :: "(string \<times> si32) list"

subsection \<open>Serialization\<close>

text \<open>
  A \<open>serialize\<close> member template visits members with \<open>h & member\<close>; the same
  traversal writes the members when \<open>h\<close> saves and reads them when \<open>h\<close> loads. The
  model of a \<open>serialize\<close> body is the list of the members it visits, in order, for the
  given format version (\<open>const int version\<close>, compared as a signed number). Each class
  gets the enumeration of all its data members, visited or not.
\<close>

datatype AObjectTypeHandler_member =
  M_rmgInfo | M_objectName | M_base | M_templates | M_typeName | M_subTypeName
  | M_type | M_subtype

datatype ObjectContainter_member =
  M_id | M_identifier | M_name | M_handlerName | M_base_oc | M_subObjects | M_subIds

definition serialize_AObjectTypeHandler :: "si32 \<Rightarrow> AObjectTypeHandler_member list" where
  "serialize_AObjectTypeHandler version =
     [M_type, M_subtype, M_templates, M_rmgInfo, M_objectName]
     @ (if 759 \<le> sint version then [M_typeName, M_subTypeName] else [])"

definition serialize_ObjectContainter :: "si32 \<Rightarrow> ObjectContainter_member list" where
  "serialize_ObjectContainter version =
     [M_name, M_handlerName, M_base_oc, M_subObjects]
     @ (if 759 \<le> sint version then [M_identifier, M_subIds] else [])"

text \<open>
  Modelled from the spec: the serializer \<open>Handler\<close> behind \<open>h & member\<close>, which is
  declared outside this header. "Persisted state (versioned binary serialization of the
  registry): writes, per TypeContainer, {name, handlerName, baseConfig,
  subtype\<rightarrow>TypeHandler map} ... Per TypeHandler: {type, subtype, templates, rmgInfo,
  optionalName}." What it writes for one member is a datum that holds the member's value;
  a map of handlers is written as its keys, each with the data of the handler stored
  under it.
\<close>

datatype ('json, 'tmpl) datum =
  D_si32 si32
  | D_string string
  | D_optstring "string option"
  | D_templates "'tmpl list"
  | D_rmgInfo RandomMapInfo
  | D_json 'json
  | D_subObjects "(si32 \<times> ('json, 'tmpl) datum list) list"
  | D_subIds "(string \<times> si32) list"

text \<open>Saving: the value of each visited member, in the order of the visit.\<close>

fun get_AObjectTypeHandler ::
  "('json, 'tmpl) AObjectTypeHandler \<Rightarrow> AObjectTypeHandler_member \<Rightarrow> ('json, 'tmpl) datum" where
  "get_AObjectTypeHandler this M_rmgInfo = D_rmgInfo (rmgInfo this)"
| "get_AObjectTypeHandler this M_objectName = D_optstring (objectName this)"
| "get_AObjectTypeHandler this M_base = D_json (base this)"
| "get_AObjectTypeHandler this M_templates = D_templates (templates this)"
| "get_AObjectTypeHandler this M_typeName = D_string (typeName this)"
| "get_AObjectTypeHandler this M_subTypeName = D_string (subTypeName this)"
| "get_AObjectTypeHandler this M_type = D_si32 (type this)"
| "get_AObjectTypeHandler this M_subtype = D_si32 (subtype this)"

definition save_AObjectTypeHandler ::
  "si32 \<Rightarrow> ('json, 'tmpl) AObjectTypeHandler \<Rightarrow> ('json, 'tmpl) datum list" where
  "save_AObjectTypeHandler version this =
     map (get_AObjectTypeHandler this) (serialize_AObjectTypeHandler version)"

fun get_ObjectContainter ::
  "si32 \<Rightarrow> ('json, 'tmpl) ObjectContainter \<Rightarrow> ObjectContainter_member \<Rightarrow> ('json, 'tmpl) datum" where
  "get_ObjectContainter version this M_id = D_si32 (id_oc this)"
| "get_ObjectContainter version this M_identifier = D_string (identifier this)"
| "get_ObjectContainter version this M_name = D_string (name_oc this)"
| "get_ObjectContainter version this M_handlerName = D_string (handlerName this)"
| "get_ObjectContainter version this M_base_oc = D_json (base_oc this)"
| "get_ObjectContainter version this M_subObjects =
     D_subObjects (map (\<lambda>(s, h). (s, save_AObjectTypeHandler version h)) (subObjects this))"
| "get_ObjectContainter version this M_subIds = D_subIds (subIds this)"

definition save_ObjectContainter ::
  "si32 \<Rightarrow> ('json, 'tmpl) ObjectContainter \<Rightarrow> ('json, 'tmpl) datum list" where
  "save_ObjectContainter version this =
     map (get_ObjectContainter version this) (serialize_ObjectContainter version)"

text \<open>
  Loading: each visited member is assigned from the next datum. A datum of the wrong kind
  or a stream that ends early fails the load (\<open>None\<close>); members that are not visited
  keep the value they have in the object that is loaded into.
\<close>

fun load_members ::
  "('m \<Rightarrow> 'd \<Rightarrow> 'o \<Rightarrow> 'o option) \<Rightarrow> 'm list \<Rightarrow> 'd list \<Rightarrow> 'o \<Rightarrow> 'o option" where
  "load_members put [] ds this = Some this"
| "load_members put (m # ms) [] this = None"
| "load_members put (m # ms) (d # ds) this =
     (case put m d this of None \<Rightarrow> None | Some this' \<Rightarrow> load_members put ms ds this')"

fun load_entries :: "('d \<Rightarrow> 'o option) \<Rightarrow> ('k \<times> 'd) list \<Rightarrow> ('k \<times> 'o) list option" where
  "load_entries ld [] = Some []"
| "load_entries ld ((k, d) # es) =
     (case ld d of None \<Rightarrow> None
      | Some v \<Rightarrow> (case load_entries ld es of None \<Rightarrow> None | Some vs \<Rightarrow> Some ((k, v) # vs)))"

definition put_AObjectTypeHandler ::
  "AObjectTypeHandler_member \<Rightarrow> ('json, 'tmpl) datum \<Rightarrow> ('json, 'tmpl) AObjectTypeHandler
   \<Rightarrow> ('json, 'tmpl) AObjectTypeHandler option" where
  "put_AObjectTypeHandler m d this =
     (case (m, d) of
        (M_rmgInfo, D_rmgInfo v) \<Rightarrow> Some (this\<lparr>rmgInfo := v\<rparr>)
      | (M_objectName, D_optstring v) \<Rightarrow> Some (this\<lparr>objectName := v\<rparr>)
      | (M_base, D_json v) \<Rightarrow> Some (this\<lparr>base := v\<rparr>)
      | (M_templates, D_templates v) \<Rightarrow> Some (this\<lparr>templates := v\<rparr>)
      | (M_typeName, D_string v) \<Rightarrow> Some (this\<lparr>typeName := v\<rparr>)
      | (M_subTypeName, D_string v) \<Rightarrow> Some (this\<lparr>subTypeName := v\<rparr>)
      | (M_type, D_si32 v) \<Rightarrow> Some (this\<lparr>type := v\<rparr>)
      | (M_subtype, D_si32 v) \<Rightarrow> Some (this\<lparr>subtype := v\<rparr>)
      | _ \<Rightarrow> None)"

definition load_AObjectTypeHandler ::
  "si32 \<Rightarrow> ('json, 'tmpl) datum list \<Rightarrow> ('json, 'tmpl) AObjectTypeHandler
   \<Rightarrow> ('json, 'tmpl) AObjectTypeHandler option" where
  "load_AObjectTypeHandler version ds this =
     load_members put_AObjectTypeHandler (serialize_AObjectTypeHandler version) ds this"

text \<open>
  A handler or a container that is read through a pointer is loaded into a newly created
  object; \<open>newHandler\<close> and \<open>newContainer\<close> below are those new objects.
\<close>

definition put_ObjectContainter ::
  "si32 \<Rightarrow> ('json, 'tmpl) AObjectTypeHandler \<Rightarrow> ObjectContainter_member
   \<Rightarrow> ('json, 'tmpl) datum \<Rightarrow> ('json, 'tmpl) ObjectContainter
   \<Rightarrow> ('json, 'tmpl) ObjectContainter option" where
  "put_ObjectContainter version newHandler m d this =
     (case (m, d) of
        (M_id, D_si32 v) \<Rightarrow> Some (this\<lparr>id_oc := v\<rparr>)
      | (M_identifier, D_string v) \<Rightarrow> Some (this\<lparr>identifier := v\<rparr>)
      | (M_name, D_string v) \<Rightarrow> Some (this\<lparr>name_oc := v\<rparr>)
      | (M_handlerName, D_string v) \<Rightarrow> Some (this\<lparr>handlerName := v\<rparr>)
      | (M_base_oc, D_json v) \<Rightarrow> Some (this\<lparr>base_oc := v\<rparr>)
      | (M_subObjects, D_subObjects es) \<Rightarrow>
          (case load_entries (\<lambda>ds. load_AObjectTypeHandler version ds newHandler) es of
             None \<Rightarrow> None
           | Some hs \<Rightarrow> Some (this\<lparr>subObjects := hs\<rparr>))
      | (M_subIds, D_subIds v) \<Rightarrow> Some (this\<lparr>subIds := v\<rparr>)
      | _ \<Rightarrow> None)"

definition load_ObjectContainter ::
  "si32 \<Rightarrow> ('json, 'tmpl) AObjectTypeHandler \<Rightarrow> ('json, 'tmpl) datum list
   \<Rightarrow> ('json, 'tmpl) ObjectContainter \<Rightarrow> ('json, 'tmpl) ObjectContainter option" where
  "load_ObjectContainter version newHandler ds this =
     load_members (put_ObjectContainter version newHandler)
       (serialize_ObjectContainter version) ds this"

text \<open>
  \<open>CObjectClassesHandler::serialize\<close> visits \<open>objects\<close> only: the map from the numeric
  type to its container, written as the keys, each with the data of its container.
\<close>

definition save_objects ::
  "si32 \<Rightarrow> (si32 \<times> ('json, 'tmpl) ObjectContainter) list
   \<Rightarrow> (si32 \<times> ('json, 'tmpl) datum list) list" where
  "save_objects version objs = map (\<lambda>(t, c). (t, save_ObjectContainter version c)) objs"

definition load_objects ::
  "si32 \<Rightarrow> ('json, 'tmpl) AObjectTypeHandler \<Rightarrow> ('json, 'tmpl) ObjectContainter
   \<Rightarrow> (si32 \<times> ('json, 'tmpl) datum list) list
   \<Rightarrow> (si32 \<times> ('json, 'tmpl) ObjectContainter) list option" where
  "load_objects version newHandler newContainer es =
     load_entries (\<lambda>ds. load_ObjectContainter version newHandler ds newContainer) es"

text \<open>
  \<open>CObjectClassesHandler\<close>: the registry. Of its four members only \<open>objects\<close> is
  visited by \<open>serialize\<close>. The value kept for a handler name in \<open>handlerConstructors\<close>
  is the handler that its constructor function returns.
\<close>

record ('json, 'tmpl) CObjectClassesHandler =
  objects :: "(si32 \<times> ('json, 'tmpl) ObjectContainter) list"
  handlerConstructors :: "(string \<times> ('json, 'tmpl) AObjectTypeHandler) list"
  legacyTemplates :: "((si32 \<times> si32) \<times> 'tmpl) list"
  customNames :: "(si32 \<times> string list) list"

datatype CObjectClassesHandler_member =
  M_objects | M_handlerConstructors | M_legacyTemplates | M_customNames

definition serialize_CObjectClassesHandler :: "si32 \<Rightarrow> CObjectClassesHandler_member list" where
  "serialize_CObjectClassesHandler version = [M_objects]"

definition save_CObjectClassesHandler ::
  "si32 \<Rightarrow> ('json, 'tmpl) CObjectClassesHandler \<Rightarrow> (si32 \<times> ('json, 'tmpl) datum list) list" where
  "save_CObjectClassesHandler version this = save_objects version (objects this)"

definition load_CObjectClassesHandler ::
  "si32 \<Rightarrow> ('json, 'tmpl) AObjectTypeHandler \<Rightarrow> ('json, 'tmpl) ObjectContainter
   \<Rightarrow> (si32 \<times> ('json, 'tmpl) datum list) list \<Rightarrow> ('json, 'tmpl) CObjectClassesHandler
   \<Rightarrow> ('json, 'tmpl) CObjectClassesHandler option" where
  "load_CObjectClassesHandler version newHandler newContainer es this =
     (case load_objects version newHandler newContainer es of
        None \<Rightarrow> None
      | Some objs \<Rightarrow> Some (this\<lparr>objects := objs\<rparr>))"

section \<open>Member functions declared in the header, defined elsewhere\<close>

text \<open>
  The header declares the member functions below; their bodies are in
  \<open>CObjectClassesHandler.cpp\<close>, which is not among the sources. Each is modelled from the
  specification, and the text before it quotes the words of the specification it follows.
\<close>

subsection \<open>AObjectTypeHandler\<close>

text \<open>
  Modelled from the spec: the bodies of \<open>AObjectTypeHandler::setType\<close> and
  \<open>setTypeName\<close>. "\<open>setType(type, subtype)\<close> / \<open>setTypeName(typeStr, subtypeStr)\<close>: set
  immutable identity once." The model is the assignment; the registry calls each once on
  a new handler.
\<close>

definition setType ::
  "si32 \<Rightarrow> si32 \<Rightarrow> ('json, 'tmpl) AObjectTypeHandler \<Rightarrow> ('json, 'tmpl) AObjectTypeHandler" where
  "setType t s this = this\<lparr>type := t, subtype := s\<rparr>"

definition setTypeName ::
  "string \<Rightarrow> string \<Rightarrow> ('json, 'tmpl) AObjectTypeHandler \<Rightarrow> ('json, 'tmpl) AObjectTypeHandler" where
  "setTypeName t s this = this\<lparr>typeName := t, subTypeName := s\<rparr>"

text \<open>
  Modelled from the spec: the bodies of the two \<open>AObjectTypeHandler::getTemplates\<close>.
  "\<open>getTemplates()\<close> / \<open>getTemplates(terrainType)\<close>: returns all templates, or only
  those whose terrain mask accepts \<open>terrainType\<close>, preserving insertion order." The
  test of a template's terrain mask belongs to \<open>ObjectTemplate\<close> and is the parameter
  \<open>canBePlacedAt\<close>.
\<close>

definition getTemplates :: "('json, 'tmpl) AObjectTypeHandler \<Rightarrow> 'tmpl list" where
  "getTemplates this = templates this"

definition getTemplates_terrain ::
  "('tmpl \<Rightarrow> si32 \<Rightarrow> bool) \<Rightarrow> ('json, 'tmpl) AObjectTypeHandler \<Rightarrow> si32 \<Rightarrow> 'tmpl list" where
  "getTemplates_terrain canBePlacedAt this terrainType =
     filter (\<lambda>tmpl. canBePlacedAt tmpl terrainType) (getTemplates this)"

subsection \<open>CObjectClassesHandler\<close>

text \<open>
  Modelled from the spec: the failures of the registry. "Taxonomy: DuplicateDefinition
  (re-registering an existing qualified name), UnknownType/UnknownSubtype (lookup or
  subobject-registration against an id that does not exist), MalformedConfiguration
  (schema/parse failure while loading one entry), LegacySourceUnreadable (bulk legacy
  import cannot read its source)."
\<close>

datatype error =
  DuplicateDefinition | UnknownType | UnknownSubtype | MalformedConfiguration
  | LegacySourceUnreadable

text \<open>
  Modelled from the spec: the reading of a \<open>JsonNode\<close> and the body of
  \<open>AObjectTypeHandler::init\<close>. The registry consumes "a JSON-like configuration-tree
  type supporting field lookup by key"; the format and its parser are outside it. What it
  reads comes through a reader: the human-readable name, the handler name and the base
  fragment of a type entry, and \<open>init\<close>, which "parses generic fields (RMG info,
  templates, custom name) from a configuration tree" into a new handler, or fails
  ("malformed configuration during \<open>init\<close> surfaces as a load-time failure").
\<close>

record ('json, 'tmpl) JsonReader =
  readName :: "'json \<Rightarrow> string"
  readHandlerName :: "'json \<Rightarrow> string"
  readBase :: "'json \<Rightarrow> 'json"
  init :: "'json \<Rightarrow> string option \<Rightarrow> ('json, 'tmpl) AObjectTypeHandler
           \<Rightarrow> error + ('json, 'tmpl) AObjectTypeHandler"

text \<open>
  Modelled from the spec: the qualified identifier of an entry. "Qualified identifier: a
  "scope:name" string uniquely naming a type/subtype across mod content sources."
\<close>

definition qualifiedName :: "string \<Rightarrow> string \<Rightarrow> string" where
  "qualifiedName scope name = scope @ '':'' @ name"

text \<open>
  Modelled from the spec: the choice of an id when none is given. "Otherwise the registry
  assigns the next free id." The search starts at 0 and passes over the ids in use; among
  \<open>n\<close> ids in use it needs at most \<open>n\<close> steps.
\<close>

fun firstFree :: "si32 list \<Rightarrow> si32 \<Rightarrow> nat \<Rightarrow> si32" where
  "firstFree used i 0 = i"
| "firstFree used i (Suc n) = (if i \<in> set used then firstFree used (i + 1) n else i)"

definition nextFreeId :: "si32 list \<Rightarrow> si32" where
  "nextFreeId used = firstFree used 0 (length used)"

text \<open>
  Modelled from the spec: the qualified names that the registry holds. A TypeContainer
  has a "string identifier"; the registered names are the identifiers of the containers.
\<close>

definition registeredNames :: "('json, 'tmpl) CObjectClassesHandler \<Rightarrow> string set" where
  "registeredNames this = set (map (\<lambda>(t, obj). identifier obj) (objects this))"

text \<open>
  Modelled from the spec: the bodies of the two \<open>CObjectClassesHandler::loadObject\<close>.
  "Register one primary-type entry from configuration. If \<open>explicitIndex\<close> given, that
  numeric id is reserved; otherwise the registry assigns the next free id. Re-registering
  the same qualified name must fail loudly (duplicate-definition error), never silently
  overwrite." A call returns the error, if any, and the registry after the call.
\<close>

definition loadObject_index ::
  "('json, 'tmpl) JsonReader \<Rightarrow> string \<Rightarrow> string \<Rightarrow> 'json \<Rightarrow> si32
   \<Rightarrow> ('json, 'tmpl) CObjectClassesHandler
   \<Rightarrow> error option \<times> ('json, 'tmpl) CObjectClassesHandler" where
  "loadObject_index rd scope name data index this =
     (if qualifiedName scope name \<in> registeredNames this
      then (Some DuplicateDefinition, this)
      else (None, this\<lparr>objects :=
              AList.update index
                \<lparr>id_oc = index, identifier = qualifiedName scope name,
                 name_oc = readName rd data, handlerName = readHandlerName rd data,
                 base_oc = readBase rd data, subObjects = [], subIds = []\<rparr>
                (objects this)\<rparr>))"

definition loadObject ::
  "('json, 'tmpl) JsonReader \<Rightarrow> string \<Rightarrow> string \<Rightarrow> 'json
   \<Rightarrow> ('json, 'tmpl) CObjectClassesHandler
   \<Rightarrow> error option \<times> ('json, 'tmpl) CObjectClassesHandler" where
  "loadObject rd scope name data this =
     loadObject_index rd scope name data (nextFreeId (map fst (objects this))) this"

text \<open>
  Modelled from the spec: the body of \<open>CObjectClassesHandler::loadSubObject\<close>.
  "Constructs a TypeHandler via the registered handler-name constructor, calls its
  \<open>init\<close>, inserts it into the parent TypeContainer under a resolved or newly-assigned
  subtype id, and records the reverse string-id mapping. Fails if \<open>typeId\<close> is unknown."
  The failures follow the taxonomy: \<open>UnknownType\<close> for "subobject-registration against an
  id that does not exist", \<open>DuplicateDefinition\<close> for "re-registering an existing
  qualified name", \<open>MalformedConfiguration\<close> when no constructor is registered under the
  handler name or \<open>init\<close> fails. \<open>init\<close> is called with the default of its second
  argument, the empty optional. The handler that is stored carries the identity it is
  stored under, as in the scenario of the specification, where
  "\<open>getHandlerFor("core:orcDwelling") .subtype == 3\<close>" after a load with explicit
  subid 3.
\<close>

definition loadSubObject ::
  "('json, 'tmpl) JsonReader \<Rightarrow> string \<Rightarrow> 'json \<Rightarrow> si32 \<Rightarrow> si32 option
   \<Rightarrow> ('json, 'tmpl) CObjectClassesHandler
   \<Rightarrow> error option \<times> ('json, 'tmpl) CObjectClassesHandler" where
  "loadSubObject rd ident config ID subID this =
     (case map_of (objects this) ID of
        None \<Rightarrow> (Some UnknownType, this)
      | Some obj \<Rightarrow>
          if ident \<in> set (map fst (subIds obj)) then (Some DuplicateDefinition, this)
          else
            (case map_of (handlerConstructors this) (handlerName obj) of
               None \<Rightarrow> (Some MalformedConfiguration, this)
             | Some newHandler \<Rightarrow>
                 (case init rd config None newHandler of
                    Inl e \<Rightarrow> (Some e, this)
                  | Inr h \<Rightarrow>
                      let s = (case subID of
                                 Some s \<Rightarrow> s
                               | None \<Rightarrow> nextFreeId (map fst (subObjects obj)));
                          h' = setTypeName (identifier obj) ident (setType ID s h)
                      in (None, this\<lparr>objects :=
                            AList.update ID
                              (obj\<lparr>subObjects := AList.update s h' (subObjects obj),
                                   subIds := AList.update ident s (subIds obj)\<rparr>)
                              (objects this)\<rparr>))))"

text \<open>
  Modelled from the spec: the body of \<open>CObjectClassesHandler::removeSubObject\<close>.
  "Removes a handler; must also remove its reverse string-id entry. Removing a
  non-existent pair is a no-op." Every string identifier that maps to the removed
  subtype is dropped.
\<close>

definition removeSubObject ::
  "si32 \<Rightarrow> si32 \<Rightarrow> ('json, 'tmpl) CObjectClassesHandler \<Rightarrow> ('json, 'tmpl) CObjectClassesHandler" where
  "removeSubObject ID subID this =
     (case map_of (objects this) ID of
        None \<Rightarrow> this
      | Some obj \<Rightarrow>
          if subID \<in> set (map fst (subObjects obj))
          then this\<lparr>objects :=
                 AList.update ID
                   (obj\<lparr>subObjects := AList.delete subID (subObjects obj),
                        subIds := filter (\<lambda>(k, s). s \<noteq> subID) (subIds obj)\<rparr>)
                   (objects this)\<rparr>
          else this)"

text \<open>
  Modelled from the spec: the bodies of \<open>knownObjects\<close> and \<open>knownSubObjects\<close>.
  "Returns the set of registered numeric ids (types, or subtypes under a type)." No
  subtype is registered under a type that is not registered.
\<close>

definition knownObjects :: "('json, 'tmpl) CObjectClassesHandler \<Rightarrow> si32 set" where
  "knownObjects this = set (map fst (objects this))"

definition knownSubObjects :: "('json, 'tmpl) CObjectClassesHandler \<Rightarrow> si32 \<Rightarrow> si32 set" where
  "knownSubObjects this primaryID =
     (case map_of (objects this) primaryID of
        None \<Rightarrow> {}
      | Some obj \<Rightarrow> set (map fst (subObjects obj)))"

text \<open>
  Modelled from the spec: the bodies of the two \<open>CObjectClassesHandler::getHandlerFor\<close>.
  "\<open>getHandlerFor(type, subtype)\<close> (numeric) and \<open>getHandlerFor(typeStr, subtypeStr)\<close>
  (string form, resolved through the reverse maps): non-owning lookup; fails with a
  not-found condition if either level is absent." The not-found conditions are
  \<open>UnknownType\<close> and \<open>UnknownSubtype\<close>. The string form finds the container whose
  identifier is \<open>typeStr\<close>, resolves \<open>subtypeStr\<close> through its \<open>subIds\<close> and returns the
  handler stored under the subtype found.
\<close>

definition getHandlerFor ::
  "('json, 'tmpl) CObjectClassesHandler \<Rightarrow> si32 \<Rightarrow> si32
   \<Rightarrow> error + ('json, 'tmpl) AObjectTypeHandler" where
  "getHandlerFor this t s =
     (case map_of (objects this) t of
        None \<Rightarrow> Inl UnknownType
      | Some obj \<Rightarrow>
          (case map_of (subObjects obj) s of
             None \<Rightarrow> Inl UnknownSubtype
           | Some h \<Rightarrow> Inr h))"

definition getHandlerFor_string ::
  "('json, 'tmpl) CObjectClassesHandler \<Rightarrow> string \<Rightarrow> string
   \<Rightarrow> error + ('json, 'tmpl) AObjectTypeHandler" where
  "getHandlerFor_string this typeStr subtypeStr =
     (case find (\<lambda>(t, obj). identifier obj = typeStr) (objects this) of
        None \<Rightarrow> Inl UnknownType
      | Some (t, obj) \<Rightarrow>
          (case map_of (subIds obj) subtypeStr of
             None \<Rightarrow> Inl UnknownSubtype
           | Some s \<Rightarrow>
               (case map_of (subObjects obj) s of
                  None \<Rightarrow> Inl UnknownSubtype
                | Some h \<Rightarrow> Inr h)))"

text \<open>
  Modelled from the spec: the body of \<open>getObjectHandlerName\<close>. "Returns the handler-name
  string associated with a primary type."
\<close>

definition getObjectHandlerName ::
  "('json, 'tmpl) CObjectClassesHandler \<Rightarrow> si32 \<Rightarrow> error + string" where
  "getObjectHandlerName this t =
     (case map_of (objects this) t of
        None \<Rightarrow> Inl UnknownType
      | Some obj \<Rightarrow> Inr (handlerName obj))"

text \<open>
  The registry states that the three mutating operations produce, from a registry that
  holds no type yet.
\<close>

inductive reachable :: "('json, 'tmpl) CObjectClassesHandler \<Rightarrow> bool" where
  reachable_new: "objects this = [] \<Longrightarrow> reachable this"
| reachable_loadObject:
    "reachable this \<Longrightarrow> reachable (snd (loadObject rd scope name data this))"
| reachable_loadObject_index:
    "reachable this \<Longrightarrow> reachable (snd (loadObject_index rd scope name data index this))"
| reachable_loadSubObject:
    "reachable this \<Longrightarrow> reachable (snd (loadSubObject rd ident config ID subID this))"
| reachable_removeSubObject:
    "reachable this \<Longrightarrow> reachable (removeSubObject ID subID this)"

text \<open>
  The invariant of a container, from the data model: "every subtype key in the owning map
  has a corresponding reverse entry in the string-id map".
\<close>

definition synchronized :: "('json, 'tmpl) ObjectContainter \<Rightarrow> bool" where
  "synchronized obj =
     (\<forall>s \<in> set (map fst (subObjects obj)). \<exists>k \<in> set (map fst (subIds obj)).
        map_of (subIds obj) k = Some s)"

text \<open>
  What every reachable registry satisfies: the numeric types and the identifiers of the
  containers are pairwise different, and each stored handler carries the identity it is
  stored under, with its \<open>subTypeName\<close> resolving to its subtype in \<open>subIds\<close>.
\<close>

definition consistent :: "('json, 'tmpl) CObjectClassesHandler \<Rightarrow> bool" where
  "consistent this =
     (distinct (map fst (objects this))
      \<and> distinct (map (\<lambda>(t, obj). identifier obj) (objects this))
      \<and> (\<forall>t obj s h. map_of (objects this) t = Some obj \<longrightarrow> map_of (subObjects obj) s = Some h
            \<longrightarrow> type h = t \<and> subtype h = s \<and> typeName h = identifier obj
                \<and> map_of (subIds obj) (subTypeName h) = Some s))"

section \<open>The scenario of the specification\<close>

text \<open>
  "Load type id 5 named "dwelling" with handler-name "creatureGenerator" and two subtypes
  "core:elfDwelling" (auto-assigned subid 0) and "core:orcDwelling" (explicit subid 3)."
  Here a configuration node is a pair of strings: for a type entry its human-readable
  name and its handler name, for a subtype a custom name and nothing.
\<close>

definition example_reader :: "(string \<times> string, nat) JsonReader" where
  "example_reader =
     \<lparr>readName = fst, readHandlerName = snd, readBase = (\<lambda>data. data),
      init = (\<lambda>config name h. Inr (h\<lparr>base := config, objectName := Some (fst config)\<rparr>))\<rparr>"

definition example_handler :: "(string \<times> string, nat) AObjectTypeHandler" where
  "example_handler =
     \<lparr>rmgInfo = RandomMapInfo_ctor, objectName = None, base = ([], []), templates = [],
      typeName = [], subTypeName = [], type = 0, subtype = 0\<rparr>"

definition example_container :: "(string \<times> string, nat) ObjectContainter" where
  "example_container =
     \<lparr>id_oc = 0, identifier = [], name_oc = [], handlerName = [], base_oc = ([], []),
      subObjects = [], subIds = []\<rparr>"

definition example_new :: "(string \<times> string, nat) CObjectClassesHandler" where
  "example_new =
     \<lparr>objects = [], handlerConstructors = [(''creatureGenerator'', example_handler)],
      legacyTemplates = [], customNames = []\<rparr>"

definition example_type :: "(string \<times> string, nat) CObjectClassesHandler" where
  "example_type =
     snd (loadObject_index example_reader ''core'' ''dwelling''
            (''Dwelling'', ''creatureGenerator'') 5 example_new)"

definition example_registry :: "(string \<times> string, nat) CObjectClassesHandler" where
  "example_registry =
     snd (loadSubObject example_reader ''core:orcDwelling'' (''Orc dwelling'', []) 5 (Some 3)
       (snd (loadSubObject example_reader ''core:elfDwelling'' (''Elf dwelling'', []) 5 None
          example_type)))"

section \<open>Properties of the value classes\<close>

text \<open>
  C7. A default-constructed \<open>IObjectInfo\<close> reports zero guards and grants nothing:
  \<open>minGuards()\<close> and \<open>maxGuards()\<close> return an army structure whose four strength
  components are all zero, and each of the ten capability predicates returns false.
\<close>

theorem IObjectInfo_default_zero_guards_no_capabilities:
  "totalStrength (minGuards IObjectInfo) = 0
   \<and> shootersStrength (minGuards IObjectInfo) = 0
   \<and> flyersStrength (minGuards IObjectInfo) = 0
   \<and> walkersStrength (minGuards IObjectInfo) = 0
   \<and> totalStrength (maxGuards IObjectInfo) = 0
   \<and> shootersStrength (maxGuards IObjectInfo) = 0
   \<and> flyersStrength (maxGuards IObjectInfo) = 0
   \<and> walkersStrength (maxGuards IObjectInfo) = 0
   \<and> givesResources IObjectInfo = False
   \<and> givesExperience IObjectInfo = False
   \<and> givesMana IObjectInfo = False
   \<and> givesMovement IObjectInfo = False
   \<and> givesPrimarySkills IObjectInfo = False
   \<and> givesSecondarySkills IObjectInfo = False
   \<and> givesArtifacts IObjectInfo = False
   \<and> givesCreatures IObjectInfo = False
   \<and> givesSpells IObjectInfo = False
   \<and> givesBonuses IObjectInfo = False"
  by (simp add: minGuards_def maxGuards_def CArmyStructure_ctor_def givesResources_def
      givesExperience_def givesMana_def givesMovement_def givesPrimarySkills_def
      givesSecondarySkills_def givesArtifacts_def givesCreatures_def givesSpells_def
      givesBonuses_def)

text \<open>
  C8. The order on army-strength estimates is the order of the totals: \<open>a < b\<close> holds
  exactly when \<open>a.totalStrength < b.totalStrength\<close> as unsigned 32-bit numbers, and
  the outcome does not change when the shooters, flyers and walkers components of
  either side are replaced by anything else.
\<close>

theorem CArmyStructure_less_by_total:
  "CArmyStructure_less a b = (unat (totalStrength a) < unat (totalStrength b))
   \<and> CArmyStructure_less
        (a\<lparr>shootersStrength := s1, flyersStrength := f1, walkersStrength := w1\<rparr>)
        (b\<lparr>shootersStrength := s2, flyersStrength := f2, walkersStrength := w2\<rparr>)
      = CArmyStructure_less a b"
  by (simp add: CArmyStructure_less_def word_less_nat_alt)

text \<open>
  C9. Legacy definition entries are ordered lexicographically by \<open>(id, subid)\<close>, both
  read as signed 32-bit numbers: \<open>a < b\<close> holds exactly when \<open>a.id < b.id\<close>, or
  \<open>a.id = b.id\<close> and \<open>a.subid < b.subid\<close>.
\<close>

theorem CGDefInfo_less_lexicographic:
  "CGDefInfo_less a b =
     (sint (id_def a) < sint (id_def b)
      \<or> (id_def a = id_def b \<and> sint (subid a) < sint (subid b)))"
  by (auto simp: CGDefInfo_less_def)

section \<open>Properties of the type handler\<close>

text \<open>
  C6. \<open>getTemplates(terrainType)\<close> returns exactly the templates of \<open>getTemplates()\<close>
  whose terrain mask accepts \<open>terrainType\<close>, in the order they have there; the result is
  a subsequence of \<open>getTemplates()\<close>.
\<close>

theorem getTemplates_terrain_subsequence:
  "getTemplates_terrain canBePlacedAt h terrainType =
     filter (\<lambda>tmpl. canBePlacedAt tmpl terrainType) (getTemplates h)
   \<and> subseq (getTemplates_terrain canBePlacedAt h terrainType) (getTemplates h)
   \<and> set (getTemplates_terrain canBePlacedAt h terrainType) =
       {tmpl \<in> set (getTemplates h). canBePlacedAt tmpl terrainType}"
  by (simp add: getTemplates_terrain_def)

section \<open>The scenario, evaluated\<close>

lemma example_type_objects:
  "objects example_type =
     [(5, \<lparr>id_oc = 5, identifier = ''core:dwelling'', name_oc = ''Dwelling'',
           handlerName = ''creatureGenerator'', base_oc = (''Dwelling'', ''creatureGenerator''),
           subObjects = [], subIds = []\<rparr>)]"
  by (simp add: example_type_def example_new_def example_reader_def loadObject_index_def
      registeredNames_def qualifiedName_def)

lemma example_type_constructors:
  "handlerConstructors example_type = [(''creatureGenerator'', example_handler)]"
  by (simp add: example_type_def example_new_def loadObject_index_def
      registeredNames_def qualifiedName_def)

lemma example_registry_objects:
  "objects example_registry =
     [(5, \<lparr>id_oc = 5, identifier = ''core:dwelling'', name_oc = ''Dwelling'',
           handlerName = ''creatureGenerator'', base_oc = (''Dwelling'', ''creatureGenerator''),
           subObjects =
             [(0, example_handler\<lparr>objectName := Some ''Elf dwelling'', base := (''Elf dwelling'', []),
                    typeName := ''core:dwelling'', subTypeName := ''core:elfDwelling'',
                    type := 5, subtype := 0\<rparr>),
              (3, example_handler\<lparr>objectName := Some ''Orc dwelling'', base := (''Orc dwelling'', []),
                    typeName := ''core:dwelling'', subTypeName := ''core:orcDwelling'',
                    type := 5, subtype := 3\<rparr>)],
           subIds = [(''core:elfDwelling'', 0), (''core:orcDwelling'', 3)]\<rparr>)]"
  by (simp add: example_registry_def loadSubObject_def example_type_objects
      example_type_constructors example_reader_def nextFreeId_def setType_def setTypeName_def
      example_handler_def)

lemma example_registry_reachable: "reachable example_registry"
  unfolding example_registry_def example_type_def
  by (intro reachable_loadSubObject reachable_loadObject_index reachable_new)
     (simp add: example_new_def)

lemma example_scenario:
  "knownSubObjects example_registry 5 = {0, 3}
   \<and> getObjectHandlerName example_registry 5 = Inr ''creatureGenerator''
   \<and> (\<exists>h. getHandlerFor_string example_registry ''core:dwelling'' ''core:orcDwelling'' = Inr h
          \<and> subtype h = 3)"
  by (simp add: knownSubObjects_def getObjectHandlerName_def getHandlerFor_string_def
      example_registry_objects)

section \<open>Properties of the serialization\<close>

lemma load_save_AObjectTypeHandler:
  "load_AObjectTypeHandler version (save_AObjectTypeHandler version h) newHandler =
     Some (if 759 \<le> sint version
           then newHandler\<lparr>type := type h, subtype := subtype h, templates := templates h,
                  rmgInfo := rmgInfo h, objectName := objectName h,
                  typeName := typeName h, subTypeName := subTypeName h\<rparr>
           else newHandler\<lparr>type := type h, subtype := subtype h, templates := templates h,
                  rmgInfo := rmgInfo h, objectName := objectName h\<rparr>)"
  by (simp add: load_AObjectTypeHandler_def save_AObjectTypeHandler_def
      serialize_AObjectTypeHandler_def put_AObjectTypeHandler_def)

lemma load_entries_total:
  "\<forall>(k, d) \<in> set es. \<exists>v. ld d = Some v \<Longrightarrow> \<exists>vs. load_entries ld es = Some vs"
  by (induction es) auto

lemma load_entries_keys:
  "load_entries ld es = Some vs \<Longrightarrow> map fst vs = map fst es"
  by (induction ld es arbitrary: vs rule: load_entries.induct) (auto split: option.splits)

lemma load_entries_values:
  "load_entries ld es = Some vs \<Longrightarrow> (k, v) \<in> set vs \<Longrightarrow> \<exists>d. (k, d) \<in> set es \<and> ld d = Some v"
proof (induction ld es arbitrary: vs rule: load_entries.induct)
  case (1 ld)
  then show ?case by simp
next
  case (2 ld k' d es)
  from "2.prems"(1) obtain v' vs' where l: "ld d = Some v'" "load_entries ld es = Some vs'"
    and vs: "vs = (k', v') # vs'"
    by (auto split: option.splits)
  show ?case
  proof (cases "(k, v) = (k', v')")
    case True
    with l show ?thesis by auto
  next
    case False
    with vs "2.prems"(2) have "(k, v) \<in> set vs'" by auto
    from "2.IH"[OF l(1) l(2) this] show ?thesis by auto
  qed
qed

text \<open>A load changes no part of the object that the visited members do not assign.\<close>

lemma load_members_frame:
  "\<forall>m \<in> set ms. \<forall>d o1 o2. put m d o1 = Some o2 \<longrightarrow> g o2 = g o1 \<Longrightarrow>
   load_members put ms ds this = Some this' \<Longrightarrow> g this' = g this"
  by (induction put ms ds this rule: load_members.induct) (auto split: option.splits)

lemma put_ObjectContainter_id:
  "m \<noteq> M_id \<Longrightarrow> put_ObjectContainter version newHandler m d c = Some c' \<Longrightarrow> id_oc c' = id_oc c"
  by (cases m; cases d) (auto simp: put_ObjectContainter_def split: option.splits)

lemma M_id_not_visited: "M_id \<notin> set (serialize_ObjectContainter version)"
  by (simp add: serialize_ObjectContainter_def)

lemma load_ObjectContainter_id:
  "load_ObjectContainter version newHandler ds c = Some c' \<Longrightarrow> id_oc c' = id_oc c"
  unfolding load_ObjectContainter_def
  by (erule load_members_frame[rotated]) (metis M_id_not_visited put_ObjectContainter_id)

lemma save_ObjectContainter_id:
  "save_ObjectContainter version (c\<lparr>id_oc := i\<rparr>) = save_ObjectContainter version c"
  by (auto simp add: save_ObjectContainter_def serialize_ObjectContainter_def)

lemma load_save_subObjects:
  "\<exists>hs. load_entries (\<lambda>ds. load_AObjectTypeHandler version ds newHandler)
     (map (\<lambda>(s, h). (s, save_AObjectTypeHandler version h)) es) = Some hs"
  by (rule load_entries_total) (auto simp: load_save_AObjectTypeHandler)

lemma load_save_ObjectContainter:
  "\<exists>c'. load_ObjectContainter version newHandler (save_ObjectContainter version c) newContainer
        = Some c'"
  using load_save_subObjects[of version newHandler "subObjects c"]
  by (auto simp add: load_ObjectContainter_def save_ObjectContainter_def
      serialize_ObjectContainter_def put_ObjectContainter_def)

lemma load_save_objects:
  "\<exists>objs'. load_objects version newHandler newContainer (save_objects version objs) = Some objs'"
  unfolding load_objects_def save_objects_def
  by (rule load_entries_total) (auto simp: load_save_ObjectContainter)

lemma load_objects_id:
  assumes "load_objects version newHandler newContainer es = Some objs'"
    and "(t, c') \<in> set objs'"
  shows "id_oc c' = id_oc newContainer"
proof -
  from load_entries_values[OF assms[unfolded load_objects_def]]
  obtain ds where "load_ObjectContainter version newHandler ds newContainer = Some c'"
    by blast
  then show ?thesis by (rule load_ObjectContainter_id)
qed

text \<open>
  C5. Serialization is gated at format version 759. From version 759 on, the members that
  \<open>AObjectTypeHandler::serialize\<close> visits are \<open>type\<close>, \<open>subtype\<close>, \<open>templates\<close>,
  \<open>rmgInfo\<close>, \<open>objectName\<close> and then \<open>typeName\<close>, \<open>subTypeName\<close>, and those that
  \<open>ObjectContainter::serialize\<close> visits are \<open>name\<close>, \<open>handlerName\<close>, \<open>base\<close>,
  \<open>subObjects\<close> and then \<open>identifier\<close>, \<open>subIds\<close>. Below version 759 the first five
  and the first four are visited and none of the four string-identifier members is.
  Since saving writes and loading reads exactly the visited members, this is what is
  written and read.
\<close>

theorem serialize_gated_at_version_759:
  "(759 \<le> sint version \<longrightarrow>
      serialize_AObjectTypeHandler version =
        [M_type, M_subtype, M_templates, M_rmgInfo, M_objectName, M_typeName, M_subTypeName]
      \<and> serialize_ObjectContainter version =
        [M_name, M_handlerName, M_base_oc, M_subObjects, M_identifier, M_subIds])
   \<and> (sint version < 759 \<longrightarrow>
      serialize_AObjectTypeHandler version =
        [M_type, M_subtype, M_templates, M_rmgInfo, M_objectName]
      \<and> serialize_ObjectContainter version =
        [M_name, M_handlerName, M_base_oc, M_subObjects])"
  by (simp add: serialize_AObjectTypeHandler_def serialize_ObjectContainter_def)

theorem serialize_gated_at_version_759_witness:
  "759 \<le> sint (759 :: si32)
   \<and> serialize_AObjectTypeHandler 759 =
        [M_type, M_subtype, M_templates, M_rmgInfo, M_objectName, M_typeName, M_subTypeName]
   \<and> serialize_ObjectContainter 759 =
        [M_name, M_handlerName, M_base_oc, M_subObjects, M_identifier, M_subIds]
   \<and> sint (758 :: si32) < 759
   \<and> serialize_AObjectTypeHandler 758 =
        [M_type, M_subtype, M_templates, M_rmgInfo, M_objectName]
   \<and> serialize_ObjectContainter 758 =
        [M_name, M_handlerName, M_base_oc, M_subObjects]"
  using serialize_gated_at_version_759[of 759] serialize_gated_at_version_759[of 758]
  by simp

text \<open>
  C10. The member \<open>id\<close> of a container is never visited by \<open>ObjectContainter::serialize\<close>:
  what is saved for a container does not depend on its \<open>id\<close>, and a load leaves the
  \<open>id\<close> of the container that is loaded into as it was. Saving a registry and loading
  the result succeeds, gives back the same numeric types as keys of \<open>objects\<close>, and every
  loaded container has the \<open>id\<close> of the newly created container, whatever \<open>id\<close> the
  saved one had: only the key carries the numeric type through the round trip.
\<close>

theorem ObjectContainter_id_not_serialized:
  "M_id \<notin> set (serialize_ObjectContainter version)
   \<and> save_ObjectContainter version (c\<lparr>id_oc := i\<rparr>) = save_ObjectContainter version c
   \<and> (\<forall>c'. load_ObjectContainter version newHandler ds newContainer = Some c'
          \<longrightarrow> id_oc c' = id_oc newContainer)
   \<and> (\<exists>this'. load_CObjectClassesHandler version newHandler newContainer
                 (save_CObjectClassesHandler version this) this0 = Some this'
          \<and> map fst (objects this') = map fst (objects this)
          \<and> (\<forall>(t, c') \<in> set (objects this'). id_oc c' = id_oc newContainer))"
proof -
  obtain objs' where l: "load_objects version newHandler newContainer
      (save_objects version (objects this)) = Some objs'"
    using load_save_objects by blast
  have k: "map fst objs' = map fst (objects this)"
    using load_entries_keys[OF l[unfolded load_objects_def]]
    by (simp add: save_objects_def comp_def case_prod_unfold)
  have "\<forall>(t, c') \<in> set objs'. id_oc c' = id_oc newContainer"
    using load_objects_id[OF l] by auto
  with l k have "\<exists>this'. load_CObjectClassesHandler version newHandler newContainer
                 (save_CObjectClassesHandler version this) this0 = Some this'
          \<and> map fst (objects this') = map fst (objects this)
          \<and> (\<forall>(t, c') \<in> set (objects this'). id_oc c' = id_oc newContainer)"
    by (simp add: load_CObjectClassesHandler_def save_CObjectClassesHandler_def)
  then show ?thesis
    using M_id_not_visited save_ObjectContainter_id load_ObjectContainter_id by blast
qed

lemma example_load_container:
  "load_ObjectContainter 759 example_handler
     (save_ObjectContainter 759 (example_container\<lparr>id_oc := 5, name_oc := ''Dwelling''\<rparr>))
     example_container
   = Some (example_container\<lparr>name_oc := ''Dwelling''\<rparr>)"
  by (simp add: load_ObjectContainter_def save_ObjectContainter_def
      serialize_ObjectContainter_def put_ObjectContainter_def example_container_def)

theorem ObjectContainter_id_not_serialized_witness:
  "id_oc (example_container\<lparr>id_oc := 5, name_oc := ''Dwelling''\<rparr>) = 5
   \<and> load_ObjectContainter 759 example_handler
        (save_ObjectContainter 759 (example_container\<lparr>id_oc := 5, name_oc := ''Dwelling''\<rparr>))
        example_container
      = Some (example_container\<lparr>name_oc := ''Dwelling''\<rparr>)
   \<and> id_oc (example_container\<lparr>name_oc := ''Dwelling''\<rparr>) = 0
   \<and> (\<exists>this'. load_CObjectClassesHandler 759 example_handler example_container
                 (save_CObjectClassesHandler 759 example_registry) example_new = Some this'
         \<and> map fst (objects this') = [5]
         \<and> map (\<lambda>(t, c'). id_oc c') (objects this') = [0])"
proof -
  note t = ObjectContainter_id_not_serialized[where version = 759
      and c = example_container and i = 5
      and newHandler = example_handler
      and ds = "save_ObjectContainter 759 (example_container\<lparr>id_oc := 5, name_oc := ''Dwelling''\<rparr>)"
      and newContainer = example_container and this = example_registry
      and ?this0.0 = example_new]
  have z: "id_oc example_container = 0" by (simp add: example_container_def)
  have "id_oc (example_container\<lparr>name_oc := ''Dwelling''\<rparr>) = id_oc example_container"
    by (rule t[THEN conjunct2, THEN conjunct2, THEN conjunct1, THEN spec, THEN mp,
          OF example_load_container])
  then have a: "id_oc (example_container\<lparr>name_oc := ''Dwelling''\<rparr>) = 0"
    using z by simp
  from t[THEN conjunct2, THEN conjunct2, THEN conjunct2] obtain this' where l: "load_CObjectClassesHandler 759 example_handler example_container
                 (save_CObjectClassesHandler 759 example_registry) example_new = Some this'"
    and k: "map fst (objects this') = map fst (objects example_registry)"
    and i: "\<forall>(t, c') \<in> set (objects this'). id_oc c' = id_oc example_container"
    by (elim conjE exE)
  from k have k5: "map fst (objects this') = [5]" by (simp add: example_registry_objects)
  then obtain c5 where o: "objects this' = [(5, c5)]" by (cases "objects this'") auto
  with i z have "map (\<lambda>(t, c'). id_oc c') (objects this') = [0]" by simp
  with l k5 have b: "\<exists>this'. load_CObjectClassesHandler 759 example_handler example_container
                 (save_CObjectClassesHandler 759 example_registry) example_new = Some this'
         \<and> map fst (objects this') = [5]
         \<and> map (\<lambda>(t, c'). id_oc c') (objects this') = [0]"
    by (intro exI[of _ this'] conjI)
  have c: "id_oc (example_container\<lparr>id_oc := 5, name_oc := ''Dwelling''\<rparr>) = 5" by simp
  show ?thesis
    by (intro conjI c example_load_container a b)
qed

section \<open>Properties of the registry\<close>

text \<open>Association lists under \<open>AList.update\<close> and under a filter on the values.\<close>

lemma set_update_subset: "set (AList.update k v xs) \<subseteq> insert (k, v) (set xs)"
  by (induction xs) auto

lemma distinct_update_new:
  "distinct (map (\<lambda>(t, obj). f obj) xs) \<Longrightarrow> f v \<notin> set (map (\<lambda>(t, obj). f obj) xs) \<Longrightarrow>
   distinct (map (\<lambda>(t, obj). f obj) (AList.update k v xs))"
proof (induction xs)
  case Nil
  then show ?case by simp
next
  case (Cons a xs)
  obtain t obj where a: "a = (t, obj)" by (cases a)
  show ?case
  proof (cases "t = k")
    case True
    with Cons.prems a show ?thesis by auto
  next
    case False
    have "f obj \<notin> (\<lambda>(t, obj). f obj) ` set (AList.update k v xs)"
    proof
      assume "f obj \<in> (\<lambda>(t, obj). f obj) ` set (AList.update k v xs)"
      then obtain t' obj' where m: "(t', obj') \<in> set (AList.update k v xs)" and e: "f obj' = f obj"
        by auto
      from m set_update_subset[of k v xs] have "(t', obj') = (k, v) \<or> (t', obj') \<in> set xs"
        by auto
      with e Cons.prems a show False by force
    qed
    with Cons False a show ?thesis by auto
  qed
qed

lemma map_update_same:
  "map_of xs k = Some v \<Longrightarrow> f v' = f v \<Longrightarrow>
   map (\<lambda>(t, obj). f obj) (AList.update k v' xs) = map (\<lambda>(t, obj). f obj) xs"
  by (induction xs) (auto split: if_splits)

lemma find_unique:
  "distinct (map (\<lambda>(t, obj). f obj) xs) \<Longrightarrow> (t, obj) \<in> set xs \<Longrightarrow>
   find (\<lambda>(t, obj'). f obj' = f obj) xs = Some (t, obj)"
  by (induction xs) (auto simp: rev_image_eqI)

lemma map_of_filter_value:
  "map_of xs k = Some v \<Longrightarrow> P v \<Longrightarrow> map_of (filter (\<lambda>(k, v). P v) xs) k = Some v"
  by (induction xs) (auto split: if_splits)

lemma consistent_loadObject_index:
  assumes "consistent this"
  shows "consistent (snd (loadObject_index rd scope name data index this))"
proof (cases "qualifiedName scope name \<in> registeredNames this")
  case True
  with assms show ?thesis by (simp add: loadObject_index_def)
next
  case False
  define obj' :: "('a, 'b) ObjectContainter" where
    "obj' = \<lparr>id_oc = index, identifier = qualifiedName scope name,
             name_oc = readName rd data, handlerName = readHandlerName rd data,
             base_oc = readBase rd data, subObjects = [], subIds = []\<rparr>"
  have r: "snd (loadObject_index rd scope name data index this) =
           this\<lparr>objects := AList.update index obj' (objects this)\<rparr>"
    using False by (simp add: loadObject_index_def obj'_def)
  have i1: "distinct (map fst (AList.update index obj' (objects this)))"
    using assms by (simp add: consistent_def distinct_update)
  have "identifier obj' \<notin> set (map (\<lambda>(t, obj). identifier obj) (objects this))"
    using False by (simp add: registeredNames_def obj'_def)
  then have i2: "distinct (map (\<lambda>(t, obj). identifier obj) (AList.update index obj' (objects this)))"
    using assms by (intro distinct_update_new) (simp_all add: consistent_def)
  have i3: "type h2 = t \<and> subtype h2 = s2 \<and> typeName h2 = identifier obj2
            \<and> map_of (subIds obj2) (subTypeName h2) = Some s2"
    if a: "map_of (AList.update index obj' (objects this)) t = Some obj2"
      and b: "map_of (subObjects obj2) s2 = Some h2" for t obj2 s2 h2
  proof (cases "t = index")
    case False
    with a have "map_of (objects this) t = Some obj2" by (simp add: update_conv')
    with assms b show ?thesis unfolding consistent_def by blast
  next
    case True
    with a have "obj2 = obj'" by (simp add: update_conv')
    with b show ?thesis by (simp add: obj'_def)
  qed
  show ?thesis unfolding r consistent_def using i1 i2 i3 by simp
qed

lemma consistent_loadSubObject:
  assumes "consistent this"
  shows "consistent (snd (loadSubObject rd ident config ID subID this))"
proof (cases "fst (loadSubObject rd ident config ID subID this)")
  case (Some e)
  then have "snd (loadSubObject rd ident config ID subID this) = this"
    by (auto simp: loadSubObject_def Let_def split: option.splits if_splits sum.splits)
  with assms show ?thesis by simp
next
  case None
  then obtain obj newHandler h where
    obj: "map_of (objects this) ID = Some obj"
    and fresh: "ident \<notin> set (map fst (subIds obj))"
    and "map_of (handlerConstructors this) (handlerName obj) = Some newHandler"
    and "init rd config None newHandler = Inr h"
    by (auto simp: loadSubObject_def Let_def split: option.splits if_splits sum.splits)
  define s where "s = (case subID of Some s \<Rightarrow> s | None \<Rightarrow> nextFreeId (map fst (subObjects obj)))"
  define h' where "h' = setTypeName (identifier obj) ident (setType ID s h)"
  define obj' where "obj' = obj\<lparr>subObjects := AList.update s h' (subObjects obj),
                                   subIds := AList.update ident s (subIds obj)\<rparr>"
  have r: "snd (loadSubObject rd ident config ID subID this) =
           this\<lparr>objects := AList.update ID obj' (objects this)\<rparr>"
    using obj fresh \<open>map_of (handlerConstructors this) (handlerName obj) = Some newHandler\<close>
      \<open>init rd config None newHandler = Inr h\<close>
    by (simp add: loadSubObject_def Let_def s_def h'_def obj'_def)
  have i1: "distinct (map fst (AList.update ID obj' (objects this)))"
    using assms by (simp add: consistent_def distinct_update)
  have "identifier obj' = identifier obj" by (simp add: obj'_def)
  then have i2: "distinct (map (\<lambda>(t, obj). identifier obj) (AList.update ID obj' (objects this)))"
    using assms obj map_update_same[of "objects this" ID obj "identifier" obj']
    by (simp add: consistent_def)
  have i3: "type h2 = t \<and> subtype h2 = s2 \<and> typeName h2 = identifier obj2
            \<and> map_of (subIds obj2) (subTypeName h2) = Some s2"
    if a: "map_of (AList.update ID obj' (objects this)) t = Some obj2"
      and b: "map_of (subObjects obj2) s2 = Some h2" for t obj2 s2 h2
  proof (cases "t = ID")
    case False
    with a have "map_of (objects this) t = Some obj2" by (simp add: update_conv')
    with assms b show ?thesis unfolding consistent_def by blast
  next
    case True
    with a have o2: "obj2 = obj'" by (simp add: update_conv')
    show ?thesis
    proof (cases "s2 = s")
      case True
      with b o2 have "h2 = h'" by (simp add: obj'_def update_conv')
      with True o2 \<open>t = ID\<close> show ?thesis
        by (simp add: h'_def setTypeName_def setType_def obj'_def update_conv')
    next
      case False
      with b o2 have "map_of (subObjects obj) s2 = Some h2" by (simp add: obj'_def update_conv')
      with assms obj have old: "type h2 = ID \<and> subtype h2 = s2 \<and> typeName h2 = identifier obj
            \<and> map_of (subIds obj) (subTypeName h2) = Some s2"
        unfolding consistent_def by blast
      then have "subTypeName h2 \<in> set (map fst (subIds obj))"
        by (metis map_of_SomeD image_eqI fst_conv set_map)
      with fresh have "subTypeName h2 \<noteq> ident" by auto
      with old o2 \<open>t = ID\<close> show ?thesis by (simp add: obj'_def update_conv')
    qed
  qed
  show ?thesis unfolding r consistent_def using i1 i2 i3 by simp
qed

lemma consistent_removeSubObject:
  assumes "consistent this"
  shows "consistent (removeSubObject ID subID this)"
proof (cases "\<exists>obj. map_of (objects this) ID = Some obj \<and> subID \<in> set (map fst (subObjects obj))")
  case False
  then have "removeSubObject ID subID this = this"
    by (auto simp: removeSubObject_def split: option.splits)
  with assms show ?thesis by simp
next
  case True
  then obtain obj where obj: "map_of (objects this) ID = Some obj"
    and mem: "subID \<in> set (map fst (subObjects obj))" by blast
  define obj' where "obj' = obj\<lparr>subObjects := AList.delete subID (subObjects obj),
                        subIds := filter (\<lambda>(k, s). s \<noteq> subID) (subIds obj)\<rparr>"
  have r: "removeSubObject ID subID this = this\<lparr>objects := AList.update ID obj' (objects this)\<rparr>"
    using obj mem by (simp add: removeSubObject_def obj'_def)
  have i1: "distinct (map fst (AList.update ID obj' (objects this)))"
    using assms by (simp add: consistent_def distinct_update)
  have "identifier obj' = identifier obj" by (simp add: obj'_def)
  then have i2: "distinct (map (\<lambda>(t, obj). identifier obj) (AList.update ID obj' (objects this)))"
    using assms obj map_update_same[of "objects this" ID obj "identifier" obj']
    by (simp add: consistent_def)
  have i3: "type h2 = t \<and> subtype h2 = s2 \<and> typeName h2 = identifier obj2
            \<and> map_of (subIds obj2) (subTypeName h2) = Some s2"
    if a: "map_of (AList.update ID obj' (objects this)) t = Some obj2"
      and b: "map_of (subObjects obj2) s2 = Some h2" for t obj2 s2 h2
  proof (cases "t = ID")
    case False
    with a have "map_of (objects this) t = Some obj2" by (simp add: update_conv')
    with assms b show ?thesis unfolding consistent_def by blast
  next
    case True
    with a have o2: "obj2 = obj'" by (simp add: update_conv')
    with b have ne: "s2 \<noteq> subID" and "map_of (subObjects obj) s2 = Some h2"
      by (auto simp: obj'_def delete_conv' split: if_splits)
    with assms obj have old: "type h2 = ID \<and> subtype h2 = s2 \<and> typeName h2 = identifier obj
            \<and> map_of (subIds obj) (subTypeName h2) = Some s2"
      unfolding consistent_def by blast
    then have "map_of (filter (\<lambda>(k, s). s \<noteq> subID) (subIds obj)) (subTypeName h2) = Some s2"
      using ne map_of_filter_value[of "subIds obj" "subTypeName h2" s2 "\<lambda>s. s \<noteq> subID"] by simp
    with old o2 \<open>t = ID\<close> show ?thesis by (simp add: obj'_def)
  qed
  show ?thesis unfolding r consistent_def using i1 i2 i3 by simp
qed

lemma reachable_consistent: "reachable this \<Longrightarrow> consistent this"
proof (induction rule: reachable.induct)
  case (reachable_new this)
  then show ?case by (simp add: consistent_def)
next
  case (reachable_loadObject this rd scope name data)
  then show ?case by (simp add: loadObject_def consistent_loadObject_index)
next
  case (reachable_loadObject_index this rd scope name data index)
  then show ?case by (simp add: consistent_loadObject_index)
next
  case (reachable_loadSubObject this rd ident config ID subID)
  then show ?case by (simp add: consistent_loadSubObject)
next
  case (reachable_removeSubObject this ID subID)
  then show ?case by (simp add: consistent_removeSubObject)
qed

lemma loadObject_index_registers:
  "fst (loadObject_index rd scope name data index this) = None \<Longrightarrow>
   qualifiedName scope name \<in> registeredNames (snd (loadObject_index rd scope name data index this))"
proof -
  assume "fst (loadObject_index rd scope name data index this) = None"
  then have n: "qualifiedName scope name \<notin> registeredNames this"
    by (auto simp: loadObject_index_def split: if_splits)
  have "(k, v) \<in> set (AList.update k v xs)" for k :: si32 and v :: "('a, 'b) ObjectContainter" and xs
    by (induction xs) auto
  then show ?thesis
    using n by (force simp: loadObject_index_def registeredNames_def)
qed

text \<open>
  C1. In every registry state, when the qualified name \<open>scope:name\<close> is already
  registered, \<open>loadObject\<close> (with or without an explicit index) fails with
  \<open>DuplicateDefinition\<close> and the registry after the call is the registry before it:
  nothing is overwritten, so \<open>knownObjects\<close>, \<open>knownSubObjects\<close>, every handler and
  every name mapping are as they were.
\<close>

theorem loadObject_duplicate_rejected:
  "qualifiedName scope name \<in> registeredNames this \<Longrightarrow>
   loadObject rd scope name data this = (Some DuplicateDefinition, this)
   \<and> loadObject_index rd scope name data index this = (Some DuplicateDefinition, this)"
  by (simp add: loadObject_def loadObject_index_def)


theorem loadObject_duplicate_rejected_witness:
  "qualifiedName ''core'' ''dwelling'' \<in> registeredNames example_type
   \<and> loadObject example_reader ''core'' ''dwelling'' (''Huts'', ''creatureGenerator'') example_type
       = (Some DuplicateDefinition, example_type)
   \<and> loadObject_index example_reader ''core'' ''dwelling'' (''Huts'', ''creatureGenerator'') 7
       example_type = (Some DuplicateDefinition, example_type)"
proof -
  have r: "qualifiedName ''core'' ''dwelling'' \<in> registeredNames example_type"
    by (simp add: registeredNames_def example_type_objects qualifiedName_def)
  from r loadObject_duplicate_rejected[OF r] show ?thesis by simp
qed

lemma known_sub_handler:
  assumes "s \<in> knownSubObjects this t"
  obtains obj h where "map_of (objects this) t = Some obj" "map_of (subObjects obj) s = Some h"
proof -
  from assms obtain obj where o: "map_of (objects this) t = Some obj"
    and m: "s \<in> set (map fst (subObjects obj))"
    by (auto simp: knownSubObjects_def split: option.splits)
  from m have "map_of (subObjects obj) s \<noteq> None"
    by (simp add: map_of_eq_None_iff)
  with o that show thesis by blast
qed

text \<open>
  C2. In every reachable registry and for every registered pair \<open>(t, s)\<close>, the numeric
  lookup \<open>getHandlerFor(t, s)\<close> succeeds, the string lookup with the identifiers
  recorded for the pair (the \<open>typeName\<close> and \<open>subTypeName\<close> of its handler, which are
  the identifier of the container and a key of its \<open>subIds\<close> that maps to \<open>s\<close>) succeeds
  too, and the two handlers have the same \<open>type\<close>, \<open>subtype\<close>, \<open>typeName\<close> and
  \<open>subTypeName\<close>. The same handler is found through every other key of \<open>subIds\<close>
  that maps to \<open>s\<close>. The registry states are those built by \<open>loadObject\<close>,
  \<open>loadSubObject\<close> and \<open>removeSubObject\<close>.
\<close>

theorem getHandlerFor_numeric_and_string_agree:
  assumes "reachable this" and "s \<in> knownSubObjects this t"
  shows "\<exists>h1 h2. getHandlerFor this t s = Inr h1
           \<and> getHandlerFor_string this (typeName h1) (subTypeName h1) = Inr h2
           \<and> type h1 = type h2 \<and> subtype h1 = subtype h2
           \<and> typeName h1 = typeName h2 \<and> subTypeName h1 = subTypeName h2
           \<and> type h1 = t \<and> subtype h1 = s
           \<and> (\<exists>obj. map_of (objects this) t = Some obj \<and> typeName h1 = identifier obj
                 \<and> map_of (subIds obj) (subTypeName h1) = Some s
                 \<and> (\<forall>k. map_of (subIds obj) k = Some s
                        \<longrightarrow> getHandlerFor_string this (identifier obj) k = Inr h1))"
proof -
  from assms(2) obtain obj h where o: "map_of (objects this) t = Some obj"
    and h: "map_of (subObjects obj) s = Some h"
    by (rule known_sub_handler)
  from assms(1) have c: "consistent this" by (rule reachable_consistent)
  with o h have i: "type h = t" "subtype h = s" "typeName h = identifier obj"
    "map_of (subIds obj) (subTypeName h) = Some s"
    unfolding consistent_def by blast+
  from o have "(t, obj) \<in> set (objects this)" by (rule map_of_SomeD)
  with c have f: "find (\<lambda>(t, obj'). identifier obj' = identifier obj) (objects this) = Some (t, obj)"
    unfolding consistent_def by (intro find_unique) simp_all
  with i h have a: "getHandlerFor_string this (typeName h) (subTypeName h) = Inr h"
    by (simp add: getHandlerFor_string_def)
  from f h have b: "\<forall>k. map_of (subIds obj) k = Some s
      \<longrightarrow> getHandlerFor_string this (identifier obj) k = Inr h"
    by (simp add: getHandlerFor_string_def)
  from o h have "getHandlerFor this t s = Inr h"
    by (simp add: getHandlerFor_def)
  with a b show ?thesis using i o by blast
qed


theorem getHandlerFor_numeric_and_string_agree_witness:
  "reachable example_registry \<and> 3 \<in> knownSubObjects example_registry 5
   \<and> (\<exists>h1 h2. getHandlerFor example_registry 5 3 = Inr h1
         \<and> getHandlerFor_string example_registry ''core:dwelling'' ''core:orcDwelling'' = Inr h2
         \<and> typeName h1 = ''core:dwelling'' \<and> subTypeName h1 = ''core:orcDwelling''
         \<and> type h1 = type h2 \<and> subtype h1 = subtype h2
         \<and> typeName h1 = typeName h2 \<and> subTypeName h1 = subTypeName h2)"
proof -
  have k: "3 \<in> knownSubObjects example_registry 5"
    by (simp add: knownSubObjects_def example_registry_objects)
  have n: "getHandlerFor example_registry 5 3 = Inr h \<Longrightarrow>
        typeName h = ''core:dwelling'' \<and> subTypeName h = ''core:orcDwelling''" for h
    by (auto simp: getHandlerFor_def example_registry_objects)
  from getHandlerFor_numeric_and_string_agree[OF example_registry_reachable k] n
  show ?thesis using example_registry_reachable k by metis
qed

text \<open>
  C3. In every registry state reached by \<open>loadObject\<close>, \<open>loadSubObject\<close> and
  \<open>removeSubObject\<close>, every container is synchronized: each subtype that is a key of
  \<open>subObjects\<close> is the value of some string identifier in \<open>subIds\<close>.
\<close>

theorem containers_stay_synchronized:
  assumes "reachable this"
  shows "\<forall>(t, obj) \<in> set (objects this). synchronized obj"
proof -
  from assms have c: "consistent this" by (rule reachable_consistent)
  have "synchronized obj" if m: "(t, obj) \<in> set (objects this)" for t obj
    unfolding synchronized_def
  proof
    fix s assume "s \<in> set (map fst (subObjects obj))"
    then obtain h where h: "map_of (subObjects obj) s = Some h"
      by (metis map_of_eq_None_iff not_None_eq set_map)
    from c m have "map_of (objects this) t = Some obj"
      unfolding consistent_def by simp
    with c h have "map_of (subIds obj) (subTypeName h) = Some s"
      unfolding consistent_def by blast
    then show "\<exists>k \<in> set (map fst (subIds obj)). map_of (subIds obj) k = Some s"
      by (metis map_of_SomeD image_eqI fst_conv set_map)
  qed
  then show ?thesis by auto
qed


theorem containers_stay_synchronized_witness:
  "reachable example_registry
   \<and> (\<exists>obj. (5, obj) \<in> set (objects example_registry) \<and> synchronized obj
         \<and> set (map fst (subObjects obj)) = {0, 3}
         \<and> map_of (subIds obj) ''core:elfDwelling'' = Some 0
         \<and> map_of (subIds obj) ''core:orcDwelling'' = Some 3)"
  using containers_stay_synchronized[OF example_registry_reachable] example_registry_reachable
  by (simp add: example_registry_objects)

text \<open>
  C4. For every registered pair \<open>(t, s)\<close>, after \<open>removeSubObject(t, s)\<close> the lookup
  \<open>getHandlerFor(t, s)\<close> fails with \<open>UnknownSubtype\<close>, \<open>knownSubObjects(t)\<close> does not
  contain \<open>s\<close>, and no string identifier of the container maps to \<open>s\<close> any more.
\<close>

theorem removeSubObject_unregisters:
  assumes "s \<in> knownSubObjects this t"
  shows "getHandlerFor (removeSubObject t s this) t s = Inl UnknownSubtype
         \<and> s \<notin> knownSubObjects (removeSubObject t s this) t
         \<and> (\<exists>obj'. map_of (objects (removeSubObject t s this)) t = Some obj'
               \<and> s \<notin> set (map snd (subIds obj'))
               \<and> (\<forall>k. map_of (subIds obj') k \<noteq> Some s))"
proof -
  from assms obtain obj where o: "map_of (objects this) t = Some obj"
    and m: "s \<in> set (map fst (subObjects obj))"
    by (auto simp: knownSubObjects_def split: option.splits)
  define obj' where "obj' = obj\<lparr>subObjects := AList.delete s (subObjects obj),
                        subIds := filter (\<lambda>(k, s'). s' \<noteq> s) (subIds obj)\<rparr>"
  have r: "removeSubObject t s this = this\<lparr>objects := AList.update t obj' (objects this)\<rparr>"
    using o m by (simp add: removeSubObject_def obj'_def)
  have l: "map_of (objects (removeSubObject t s this)) t = Some obj'"
    by (simp add: r update_conv')
  have d: "map_of (subObjects obj') s = None" "s \<notin> set (map fst (subObjects obj'))"
    by (simp_all add: obj'_def delete_conv' delete_notin_dom)
  have i: "s \<notin> set (map snd (subIds obj'))"
    by (auto simp: obj'_def)
  then have "map_of (subIds obj') k \<noteq> Some s" for k
    by (metis map_of_SomeD image_eqI snd_conv set_map)
  with l d i show ?thesis
    by (simp add: getHandlerFor_def knownSubObjects_def)
qed

theorem removeSubObject_unregisters_witness:
  "3 \<in> knownSubObjects example_registry 5
   \<and> getHandlerFor (removeSubObject 5 3 example_registry) 5 3 = Inl UnknownSubtype
   \<and> knownSubObjects (removeSubObject 5 3 example_registry) 5 = {0}
   \<and> getHandlerFor_string (removeSubObject 5 3 example_registry)
        ''core:dwelling'' ''core:orcDwelling'' = Inl UnknownSubtype"
proof -
  have k: "3 \<in> knownSubObjects example_registry 5"
    by (simp add: knownSubObjects_def example_registry_objects)
  have "knownSubObjects (removeSubObject 5 3 example_registry) 5 = {0}"
    "getHandlerFor_string (removeSubObject 5 3 example_registry)
        ''core:dwelling'' ''core:orcDwelling'' = Inl UnknownSubtype"
    by (simp_all add: knownSubObjects_def getHandlerFor_string_def removeSubObject_def
        example_registry_objects)
  with k removeSubObject_unregisters[OF k] show ?thesis by simp
qed

end
